theory Spec2Isabelle
  imports Main
begin

section \<open>Python values\<close>

text \<open>
  The client of \<^verbatim>\<open>agent_wallet_integration.py\<close> handles three kinds of data: Python
  integers (unbounded, modelled by \<^typ>\<open>int\<close>), Python strings and decoded JSON documents.
  A string is a \<^typ>\<open>string\<close>, each character read as the code point of the same number
  (0 to 255); code points above 255 are outside the model. The interpreter's optional limit
  on the number of digits of an integer/string conversion is taken to be switched off, so
  that \<^verbatim>\<open>str\<close> is total on integers, as in the language definition.
\<close>

text \<open>
  A float that the JSON decoder produced: a finite binary fraction \<open>m * 2 ^ e\<close>, an
  infinity (\<open>True\<close> for the positive one) or not-a-number.
\<close>

datatype pyfloat = Finite int int | Infinity bool | NaN

text \<open>
  A decoded JSON document, as \<^verbatim>\<open>response.json()\<close> returns it. A dict is the list of its
  items in order; a lookup reads the first binding of a key.
\<close>

datatype json =
    JNull
  | JBool bool
  | JInt int
  | JFloat pyfloat
  | JStr string
  | JArr "json list"
  | JObj "(string \<times> json) list"

subsection \<open>\<^verbatim>\<open>str\<close> of an integer\<close>

definition digit_char :: "nat \<Rightarrow> char" where
  "digit_char d = ''0123456789'' ! d"

fun str_nat :: "nat \<Rightarrow> string" where
  "str_nat n = (if n < 10 then [digit_char n] else str_nat (n div 10) @ [digit_char (n mod 10)])"

declare str_nat.simps [simp del]

text \<open>\<^verbatim>\<open>str(n)\<close>: a minus sign for a negative number, then the decimal digits.\<close>

definition py_str :: "int \<Rightarrow> string" where
  "py_str n = (if n < 0 then CHR ''-'' # str_nat (nat (- n)) else str_nat (nat n))"

subsection \<open>\<^verbatim>\<open>str.zfill\<close>\<close>

text \<open>
  \<^verbatim>\<open>s.zfill(width)\<close> pads \<open>s\<close> with zeros on the left up to \<open>width\<close> characters, after a
  leading sign if there is one, and never shortens \<open>s\<close>.
\<close>

definition zfill :: "nat \<Rightarrow> string \<Rightarrow> string" where
  "zfill width s =
     (if width \<le> length s then s
      else (case s of
              [] \<Rightarrow> replicate width CHR ''0''
            | c # cs \<Rightarrow>
                if c = CHR ''+'' \<or> c = CHR ''-''
                then c # replicate (width - length s) CHR ''0'' @ cs
                else replicate (width - length s) CHR ''0'' @ s))"

subsection \<open>\<^verbatim>\<open>format_balance\<close>\<close>

text \<open>
  \<^verbatim>\<open>
  def format_balance(balance: int, decimals: int) -> str:
      divisor = 10 ** decimals
      whole = balance // divisor
      fraction = balance % divisor
      return f"{whole}.{str(fraction).zfill(decimals)}"
  \<close>
  \<open>decimals\<close> is a number of digits, a \<^typ>\<open>nat\<close>: with a negative exponent Python's
  \<^verbatim>\<open>**\<close> gives a float, and the function leaves integer arithmetic. The divisor is
  positive, where Python's \<^verbatim>\<open>//\<close> and \<^verbatim>\<open>%\<close> are \<open>div\<close> and \<open>mod\<close> on \<^typ>\<open>int\<close>
  (both round towards minus infinity).
\<close>

definition format_balance :: "int \<Rightarrow> nat \<Rightarrow> string" where
  "format_balance balance decimals =
     (let divisor = 10 ^ decimals;
          whole = balance div divisor;
          fraction = balance mod divisor
      in py_str whole @ ''.'' @ zfill decimals (py_str fraction))"

section \<open>HTTP exchange\<close>

text \<open>
  What the client hands to \<^verbatim>\<open>requests\<close>: the method, the URL, the \<^verbatim>\<open>json=\<close> body
  (if any) and the \<^verbatim>\<open>timeout=\<close> argument, in seconds.
\<close>

datatype http_method = GET | POST | DELETE

record request =
  req_method :: http_method
  req_url :: string
  req_json :: "json option"
  req_timeout :: nat

text \<open>
  What comes back: the status code and the body as \<^verbatim>\<open>response.json()\<close> decodes it,
  \<open>None\<close> when the body is not a JSON document.
\<close>

record response =
  status_code :: nat
  body :: "json option"

text \<open>
  The exceptions that can leave a client method: those \<^verbatim>\<open>requests\<close> raises
  (\<open>HTTPError\<close> from \<^verbatim>\<open>raise_for_status\<close>, carrying the response; \<open>Timeout\<close> and
  \<open>ConnectionError\<close> from the transport; \<open>JSONDecodeError\<close> from \<^verbatim>\<open>response.json()\<close>)
  and those of the interpreter while the body is taken apart.
\<close>

datatype error =
    HTTPError response
  | Timeout
  | ConnectionError
  | JSONDecodeError
  | KeyError string
  | TypeError
  | ValueError
  | OverflowError

text \<open>Sequencing of steps that may raise: the first exception ends the computation.\<close>

definition bind_r :: "error + 'a \<Rightarrow> ('a \<Rightarrow> error + 'b) \<Rightarrow> error + 'b" where
  "bind_r m f = (case m of Inl e \<Rightarrow> Inl e | Inr v \<Rightarrow> f v)"

fun map_r :: "('a \<Rightarrow> error + 'b) \<Rightarrow> 'a list \<Rightarrow> error + 'b list" where
  "map_r f [] = Inr []"
| "map_r f (x # xs) = bind_r (f x) (\<lambda>y. bind_r (map_r f xs) (\<lambda>ys. Inr (y # ys)))"

subsection \<open>\<^verbatim>\<open>int\<close> of a decoded value\<close>

text \<open>
  \<^verbatim>\<open>int(s)\<close> on a string: white space is stripped at both ends, an optional sign follows,
  then decimal digits, where single underscores may stand between two digits. The white
  space of the code points up to 255 is tab, line feed, vertical tab, form feed, carriage
  return, space, next line (133) and no-break space (160).
\<close>

definition py_isspace :: "char \<Rightarrow> bool" where
  "py_isspace c = ((of_char c :: nat) \<in> {9, 10, 11, 12, 13, 32, 133, 160})"

definition strip :: "string \<Rightarrow> string" where
  "strip s = rev (dropWhile py_isspace (rev (dropWhile py_isspace s)))"

definition is_digit :: "char \<Rightarrow> bool" where
  "is_digit c = (48 \<le> (of_char c :: nat) \<and> (of_char c :: nat) \<le> 57)"

definition digit_val :: "char \<Rightarrow> nat" where
  "digit_val c = of_char c - 48"

fun scan_digits :: "nat \<Rightarrow> string \<Rightarrow> nat option" where
  "scan_digits acc [] = Some acc"
| "scan_digits acc [c] = (if is_digit c then Some (10 * acc + digit_val c) else None)"
| "scan_digits acc (c # d # cs) =
     (if is_digit c then scan_digits (10 * acc + digit_val c) (d # cs)
      else if c = CHR ''_'' \<and> is_digit d then scan_digits acc (d # cs)
      else None)"

definition parse_unsigned :: "string \<Rightarrow> nat option" where
  "parse_unsigned s =
     (case s of
        [] \<Rightarrow> None
      | c # cs \<Rightarrow> if is_digit c then scan_digits (digit_val c) cs else None)"

definition int_of_str :: "string \<Rightarrow> error + int" where
  "int_of_str s =
     (case strip s of
        [] \<Rightarrow> Inl ValueError
      | c # cs \<Rightarrow>
          if c = CHR ''-'' then
            (case parse_unsigned cs of None \<Rightarrow> Inl ValueError | Some n \<Rightarrow> Inr (- int n))
          else if c = CHR ''+'' then
            (case parse_unsigned cs of None \<Rightarrow> Inl ValueError | Some n \<Rightarrow> Inr (int n))
          else
            (case parse_unsigned (c # cs) of None \<Rightarrow> Inl ValueError | Some n \<Rightarrow> Inr (int n)))"

text \<open>\<^verbatim>\<open>int(x)\<close> on a float truncates towards zero; infinities and not-a-number raise.\<close>

fun int_of_float :: "pyfloat \<Rightarrow> error + int" where
  "int_of_float (Finite m e) =
     (if 0 \<le> e then Inr (m * 2 ^ nat e) else Inr (sgn m * (\<bar>m\<bar> div 2 ^ nat (- e))))"
| "int_of_float (Infinity _) = Inl OverflowError"
| "int_of_float NaN = Inl ValueError"

fun py_int :: "json \<Rightarrow> error + int" where
  "py_int (JStr s) = int_of_str s"
| "py_int (JInt n) = Inr n"
| "py_int (JBool b) = Inr (if b then 1 else 0)"
| "py_int (JFloat f) = int_of_float f"
| "py_int JNull = Inl TypeError"
| "py_int (JArr _) = Inl TypeError"
| "py_int (JObj _) = Inl TypeError"

subsection \<open>Reading digits\<close>

text \<open>The number that a string of decimal digits denotes.\<close>

definition dec_val :: "string \<Rightarrow> nat" where
  "dec_val ds = foldl (\<lambda>a c. 10 * a + digit_val c) 0 ds"

subsection \<open>Subscripts and iteration\<close>

text \<open>
  \<^verbatim>\<open>data[key]\<close> with a string key: a dict gives the value or raises \<open>KeyError\<close>; every
  other decoded value raises \<open>TypeError\<close>.
\<close>

fun getitem :: "json \<Rightarrow> string \<Rightarrow> error + json" where
  "getitem (JObj kvs) k = (case map_of kvs k of None \<Rightarrow> Inl (KeyError k) | Some v \<Rightarrow> Inr v)"
| "getitem _ k = Inl TypeError"

text \<open>
  \<^verbatim>\<open>for x in v\<close>: a list gives its elements, a dict its keys, a string its characters;
  the other decoded values are not iterable.
\<close>

fun py_iter :: "json \<Rightarrow> error + json list" where
  "py_iter (JArr xs) = Inr xs"
| "py_iter (JObj kvs) = Inr (map (\<lambda>kv. JStr (fst kv)) kvs)"
| "py_iter (JStr s) = Inr (map (\<lambda>c. JStr [c]) s)"
| "py_iter _ = Inl TypeError"

section \<open>The transport\<close>

text \<open>
  One call of \<^verbatim>\<open>session.get\<close>, \<^verbatim>\<open>session.post\<close> or \<^verbatim>\<open>session.delete\<close> either returns
  a response or raises: \<^verbatim>\<open>requests.Timeout\<close> when the time given by \<^verbatim>\<open>timeout=\<close> passes
  without an answer, \<^verbatim>\<open>requests.ConnectionError\<close> when the connection fails. Which of
  the three happens, and when, is decided outside the client. One call counts as one
  request: what the library does below that (following a redirect) is not modelled, nor
  are its other exceptions (such as the one for a URL it cannot read).
\<close>

datatype reply = Responds response | TimesOut | ConnectionFails

text \<open>
  The world outside the client: \<open>net\<close> is the remote service seen through the network,
  answering a request in view of all the requests sent before it; \<open>log\<close> records every
  request sent, with the session it went through; \<open>next_session\<close> counts the sessions
  created so far and \<open>open_sessions\<close> holds those not closed. The file never calls
  \<^verbatim>\<open>close\<close> on a session and never opens one in a \<^verbatim>\<open>with\<close> block, so no function
  below takes a session out of \<open>open_sessions\<close>.
\<close>

record world =
  net :: "request list \<Rightarrow> request \<Rightarrow> reply"
  log :: "(nat \<times> request) list"
  next_session :: nat
  open_sessions :: "nat set"

text \<open>\<^verbatim>\<open>requests.Session()\<close> creates a session.\<close>

definition Session :: "world \<Rightarrow> nat \<times> world" where
  "Session w =
     (next_session w,
      w\<lparr>next_session := Suc (next_session w),
        open_sessions := insert (next_session w) (open_sessions w)\<rparr>)"

definition session_request ::
  "nat \<Rightarrow> http_method \<Rightarrow> string \<Rightarrow> json option \<Rightarrow> nat \<Rightarrow> world \<Rightarrow> (error + response) \<times> world"
where
  "session_request s m url js t w =
     (let req = \<lparr>req_method = m, req_url = url, req_json = js, req_timeout = t\<rparr>
      in (case net w (map snd (log w)) req of
            Responds r \<Rightarrow> Inr r
          | TimesOut \<Rightarrow> Inl Timeout
          | ConnectionFails \<Rightarrow> Inl ConnectionError,
          w\<lparr>log := log w @ [(s, req)]\<rparr>))"

text \<open>
  \<^verbatim>\<open>response.raise_for_status()\<close> raises \<open>HTTPError\<close> for a status from 400 to 599 and
  does nothing otherwise.
\<close>

definition raise_for_status :: "response \<Rightarrow> error + unit" where
  "raise_for_status r =
     (if 400 \<le> status_code r \<and> status_code r < 600 then Inl (HTTPError r) else Inr ())"

definition response_json :: "response \<Rightarrow> error + json" where
  "response_json r = (case body r of None \<Rightarrow> Inl JSONDecodeError | Some j \<Rightarrow> Inr j)"

section \<open>The client\<close>

definition API_BASE_URL :: string where
  "API_BASE_URL = ''http://localhost:3000/api/v1''"

definition API_TIMEOUT :: nat where
  "API_TIMEOUT = 30"

text \<open>
  The three dataclasses. A dataclass does not check the types of its fields: a field
  filled from \<^verbatim>\<open>data[...]\<close> holds whatever the server sent, a field filled through
  \<^verbatim>\<open>int(...)\<close> holds an integer. The field names carry the initials of their class
  (\<open>aw\<close>, \<open>ab\<close>, \<open>ac\<close>), since the classes share names with each other and with the
  parameters of the methods.
\<close>

record agent_wallet =
  aw_agent_id :: json
  aw_evm_address :: json
  aw_xrp_address :: json
  aw_derivation_index :: json
  aw_created_at :: json
  aw_status :: json

record agent_balance =
  ab_agent_id :: json
  ab_chain :: json
  ab_token :: json
  ab_balance :: int
  ab_decimals :: json
  ab_last_updated :: json

record agent_channel =
  ac_id :: json
  ac_agent_id :: json
  ac_peer_id :: json
  ac_chain :: json
  ac_token :: json
  ac_balance :: int
  ac_initial_amount :: int
  ac_payments_count :: json
  ac_status :: json

text \<open>
  \<^verbatim>\<open>
  class AgentWalletClient:
      def __init__(self, base_url: str = API_BASE_URL):
          self.base_url = base_url
          self.session = requests.Session()
  \<close>
  A method takes the client and the world and returns its result (or the exception that
  leaves it), the client and the world afterwards.
\<close>

record client =
  base_url :: string
  session :: nat

definition AgentWalletClient :: "string \<Rightarrow> world \<Rightarrow> client \<times> world" where
  "AgentWalletClient url w =
     (case Session w of (s, w') \<Rightarrow> (\<lparr>base_url = url, session = s\<rparr>, w'))"

text \<open>
  The constructor call \<^verbatim>\<open>AgentWallet(agent_id=data['agentId'], ...)\<close> that
  \<^verbatim>\<open>create_wallet\<close> and \<^verbatim>\<open>get_wallet\<close> share; the arguments are evaluated from left
  to right.
\<close>

definition AgentWallet :: "json \<Rightarrow> error + agent_wallet" where
  "AgentWallet data =
     bind_r (getitem data ''agentId'') (\<lambda>a.
     bind_r (getitem data ''evmAddress'') (\<lambda>e.
     bind_r (getitem data ''xrpAddress'') (\<lambda>x.
     bind_r (getitem data ''derivationIndex'') (\<lambda>d.
     bind_r (getitem data ''createdAt'') (\<lambda>c.
     bind_r (getitem data ''status'') (\<lambda>s.
     Inr \<lparr>aw_agent_id = a, aw_evm_address = e, aw_xrp_address = x,
          aw_derivation_index = d, aw_created_at = c, aw_status = s\<rparr>))))))"

definition create_wallet ::
  "client \<Rightarrow> string \<Rightarrow> world \<Rightarrow> (error + agent_wallet) \<times> client \<times> world"
where
  "create_wallet self agent_id w =
     (case session_request (session self) POST (base_url self @ ''/wallets'')
             (Some (JObj [(''agentId'', JStr agent_id)])) API_TIMEOUT w of
        (sent, w') \<Rightarrow>
          (bind_r sent (\<lambda>response.
           bind_r (raise_for_status response) (\<lambda>_.
           bind_r (response_json response) AgentWallet)),
           self, w'))"

definition get_wallet ::
  "client \<Rightarrow> string \<Rightarrow> world \<Rightarrow> (error + agent_wallet option) \<times> client \<times> world"
where
  "get_wallet self agent_id w =
     (case session_request (session self) GET (base_url self @ ''/wallets/'' @ agent_id)
             None API_TIMEOUT w of
        (sent, w') \<Rightarrow>
          (bind_r sent (\<lambda>response.
             if status_code response = 404 then Inr None
             else
               bind_r (raise_for_status response) (\<lambda>_.
               bind_r (response_json response) (\<lambda>data.
               bind_r (AgentWallet data) (\<lambda>wallet. Inr (Some wallet))))),
           self, w'))"

definition AgentBalance :: "json \<Rightarrow> error + agent_balance" where
  "AgentBalance b =
     bind_r (getitem b ''agentId'') (\<lambda>a.
     bind_r (getitem b ''chain'') (\<lambda>c.
     bind_r (getitem b ''token'') (\<lambda>t.
     bind_r (bind_r (getitem b ''balance'') py_int) (\<lambda>n.
     bind_r (getitem b ''decimals'') (\<lambda>d.
     bind_r (getitem b ''lastUpdated'') (\<lambda>l.
     Inr \<lparr>ab_agent_id = a, ab_chain = c, ab_token = t,
          ab_balance = n, ab_decimals = d, ab_last_updated = l\<rparr>))))))"

definition get_all_balances ::
  "client \<Rightarrow> string \<Rightarrow> world \<Rightarrow> (error + agent_balance list) \<times> client \<times> world"
where
  "get_all_balances self agent_id w =
     (case session_request (session self) GET
             (base_url self @ ''/wallets/'' @ agent_id @ ''/balances'') None API_TIMEOUT w of
        (sent, w') \<Rightarrow>
          (bind_r sent (\<lambda>response.
           bind_r (raise_for_status response) (\<lambda>_.
           bind_r (response_json response) (\<lambda>data.
           bind_r (getitem data ''balances'') (\<lambda>bs.
           bind_r (py_iter bs) (map_r AgentBalance))))),
           self, w'))"

definition get_balance ::
  "client \<Rightarrow> string \<Rightarrow> string \<Rightarrow> string \<Rightarrow> world \<Rightarrow> (error + int) \<times> client \<times> world"
where
  "get_balance self agent_id chain token w =
     (case session_request (session self) GET
             (base_url self @ ''/wallets/'' @ agent_id @ ''/balances/'' @ chain @ ''/'' @ token)
             None API_TIMEOUT w of
        (sent, w') \<Rightarrow>
          (bind_r sent (\<lambda>response.
           bind_r (raise_for_status response) (\<lambda>_.
           bind_r (response_json response) (\<lambda>data.
           bind_r (getitem data ''balance'') py_int))),
           self, w'))"

definition open_channel ::
  "client \<Rightarrow> string \<Rightarrow> string \<Rightarrow> string \<Rightarrow> string \<Rightarrow> int \<Rightarrow> world
     \<Rightarrow> (error + json) \<times> client \<times> world"
where
  "open_channel self agent_id peer_id chain token amount w =
     (case session_request (session self) POST (base_url self @ ''/channels'')
             (Some (JObj [(''agentId'', JStr agent_id),
                          (''peerId'', JStr peer_id),
                          (''chain'', JStr chain),
                          (''token'', JStr token),
                          (''amount'', JStr (py_str amount))]))
             API_TIMEOUT w of
        (sent, w') \<Rightarrow>
          (bind_r sent (\<lambda>response.
           bind_r (raise_for_status response) (\<lambda>_.
           bind_r (response_json response) (\<lambda>data.
           getitem data ''channelId''))),
           self, w'))"

definition send_payment ::
  "client \<Rightarrow> string \<Rightarrow> string \<Rightarrow> int \<Rightarrow> world \<Rightarrow> (error + unit) \<times> client \<times> world"
where
  "send_payment self agent_id channel_id amount w =
     (case session_request (session self) POST
             (base_url self @ ''/channels/'' @ channel_id @ ''/payments'')
             (Some (JObj [(''agentId'', JStr agent_id),
                          (''amount'', JStr (py_str amount))]))
             API_TIMEOUT w of
        (sent, w') \<Rightarrow> (bind_r sent raise_for_status, self, w'))"

definition close_channel ::
  "client \<Rightarrow> string \<Rightarrow> string \<Rightarrow> world \<Rightarrow> (error + unit) \<times> client \<times> world"
where
  "close_channel self agent_id channel_id w =
     (case session_request (session self) DELETE (base_url self @ ''/channels/'' @ channel_id)
             (Some (JObj [(''agentId'', JStr agent_id)])) API_TIMEOUT w of
        (sent, w') \<Rightarrow> (bind_r sent raise_for_status, self, w'))"

definition AgentChannel :: "json \<Rightarrow> error + agent_channel" where
  "AgentChannel c =
     bind_r (getitem c ''id'') (\<lambda>i.
     bind_r (getitem c ''agentId'') (\<lambda>a.
     bind_r (getitem c ''peerId'') (\<lambda>p.
     bind_r (getitem c ''chain'') (\<lambda>ch.
     bind_r (getitem c ''token'') (\<lambda>t.
     bind_r (bind_r (getitem c ''balance'') py_int) (\<lambda>n.
     bind_r (bind_r (getitem c ''initialAmount'') py_int) (\<lambda>m.
     bind_r (getitem c ''paymentsCount'') (\<lambda>k.
     bind_r (getitem c ''status'') (\<lambda>s.
     Inr \<lparr>ac_id = i, ac_agent_id = a, ac_peer_id = p, ac_chain = ch,
          ac_token = t, ac_balance = n, ac_initial_amount = m,
          ac_payments_count = k, ac_status = s\<rparr>)))))))))"

definition get_agent_channels ::
  "client \<Rightarrow> string \<Rightarrow> world \<Rightarrow> (error + agent_channel list) \<times> client \<times> world"
where
  "get_agent_channels self agent_id w =
     (case session_request (session self) GET
             (base_url self @ ''/wallets/'' @ agent_id @ ''/channels'') None API_TIMEOUT w of
        (sent, w') \<Rightarrow>
          (bind_r sent (\<lambda>response.
           bind_r (raise_for_status response) (\<lambda>_.
           bind_r (response_json response) (\<lambda>data.
           bind_r (getitem data ''channels'') (\<lambda>cs.
           bind_r (py_iter cs) (map_r AgentChannel))))),
           self, w'))"

section \<open>A caller of the client\<close>

text \<open>
  \<^verbatim>\<open>
  def example_5_batch_operations():
      client = AgentWalletClient()
      agent_ids = ["agent-batch-001", "agent-batch-002", "agent-batch-003"]
      try:
          wallets = []
          for agent_id in agent_ids:
              try:
                  wallet = client.create_wallet(agent_id)
                  wallets.append(wallet)
              except requests.HTTPError as e:
                  if e.response.status_code == 409:
                      (skip)
                  else:
                      raise
          return wallets
      except requests.HTTPError as e:
          raise
  \<close>
  The function creates a client, uses it and returns (or raises) without it. Its
  \<^verbatim>\<open>print\<close> calls write to the standard output only and are left out.
\<close>

fun batch_loop ::
  "client \<Rightarrow> string list \<Rightarrow> agent_wallet list \<Rightarrow> world \<Rightarrow> (error + agent_wallet list) \<times> world"
where
  "batch_loop client [] wallets w = (Inr wallets, w)"
| "batch_loop client (agent_id # agent_ids) wallets w =
     (case create_wallet client agent_id w of
        (Inr wallet, client', w') \<Rightarrow> batch_loop client' agent_ids (wallets @ [wallet]) w'
      | (Inl (HTTPError r), client', w') \<Rightarrow>
          if status_code r = 409 then batch_loop client' agent_ids wallets w'
          else (Inl (HTTPError r), w')
      | (Inl e, client', w') \<Rightarrow> (Inl e, w'))"

definition example_5_batch_operations :: "world \<Rightarrow> (error + agent_wallet list) \<times> world" where
  "example_5_batch_operations w =
     (case AgentWalletClient API_BASE_URL w of
        (client, w1) \<Rightarrow>
          batch_loop client [''agent-batch-001'', ''agent-batch-002'', ''agent-batch-003''] [] w1)"

section \<open>Vocabulary of the statements\<close>

text \<open>The answer that the service gives if \<open>req\<close> is the next request sent in \<open>w\<close>.\<close>

definition reply_to :: "world \<Rightarrow> request \<Rightarrow> reply" where
  "reply_to w req = net w (map snd (log w)) req"

text \<open>
  The eight operations of the client as one type, with their results, so that a statement
  can speak of every operation.
\<close>

datatype call =
    CreateWallet string
  | GetWallet string
  | GetAllBalances string
  | GetBalance string string string
  | OpenChannel string string string string int
  | SendPayment string string int
  | CloseChannel string string
  | GetAgentChannels string

datatype result =
    Wallet agent_wallet
  | OptionalWallet "agent_wallet option"
  | Balances "agent_balance list"
  | Amount int
  | ChannelId json
  | Done
  | Channels "agent_channel list"

definition returning ::
  "('a \<Rightarrow> result) \<Rightarrow> (error + 'a) \<times> client \<times> world \<Rightarrow> (error + result) \<times> client \<times> world"
where
  "returning f x = (case x of (r, c, w) \<Rightarrow> (map_sum (\<lambda>e. e) f r, c, w))"

fun perform :: "client \<Rightarrow> call \<Rightarrow> world \<Rightarrow> (error + result) \<times> client \<times> world" where
  "perform self (CreateWallet a) w = returning Wallet (create_wallet self a w)"
| "perform self (GetWallet a) w = returning OptionalWallet (get_wallet self a w)"
| "perform self (GetAllBalances a) w = returning Balances (get_all_balances self a w)"
| "perform self (GetBalance a ch t) w = returning Amount (get_balance self a ch t w)"
| "perform self (OpenChannel a p ch t n) w = returning ChannelId (open_channel self a p ch t n w)"
| "perform self (SendPayment a i n) w = returning (\<lambda>_. Done) (send_payment self a i n w)"
| "perform self (CloseChannel a i) w = returning (\<lambda>_. Done) (close_channel self a i w)"
| "perform self (GetAgentChannels a) w = returning Channels (get_agent_channels self a w)"

text \<open>
  The request of each operation as the interface table of the specification gives it
  (method, path under the base URL, body), with the timeout of the configuration.
\<close>

fun request_of :: "client \<Rightarrow> call \<Rightarrow> request" where
  "request_of c (CreateWallet a) =
     \<lparr>req_method = POST, req_url = base_url c @ ''/wallets'',
      req_json = Some (JObj [(''agentId'', JStr a)]), req_timeout = API_TIMEOUT\<rparr>"
| "request_of c (GetWallet a) =
     \<lparr>req_method = GET, req_url = base_url c @ ''/wallets/'' @ a,
      req_json = None, req_timeout = API_TIMEOUT\<rparr>"
| "request_of c (GetAllBalances a) =
     \<lparr>req_method = GET, req_url = base_url c @ ''/wallets/'' @ a @ ''/balances'',
      req_json = None, req_timeout = API_TIMEOUT\<rparr>"
| "request_of c (GetBalance a ch t) =
     \<lparr>req_method = GET,
      req_url = base_url c @ ''/wallets/'' @ a @ ''/balances/'' @ ch @ ''/'' @ t,
      req_json = None, req_timeout = API_TIMEOUT\<rparr>"
| "request_of c (OpenChannel a p ch t n) =
     \<lparr>req_method = POST, req_url = base_url c @ ''/channels'',
      req_json = Some (JObj [(''agentId'', JStr a), (''peerId'', JStr p), (''chain'', JStr ch),
                             (''token'', JStr t), (''amount'', JStr (py_str n))]),
      req_timeout = API_TIMEOUT\<rparr>"
| "request_of c (SendPayment a i n) =
     \<lparr>req_method = POST, req_url = base_url c @ ''/channels/'' @ i @ ''/payments'',
      req_json = Some (JObj [(''agentId'', JStr a), (''amount'', JStr (py_str n))]),
      req_timeout = API_TIMEOUT\<rparr>"
| "request_of c (CloseChannel a i) =
     \<lparr>req_method = DELETE, req_url = base_url c @ ''/channels/'' @ i,
      req_json = Some (JObj [(''agentId'', JStr a)]), req_timeout = API_TIMEOUT\<rparr>"
| "request_of c (GetAgentChannels a) =
     \<lparr>req_method = GET, req_url = base_url c @ ''/wallets/'' @ a @ ''/channels'',
      req_json = None, req_timeout = API_TIMEOUT\<rparr>"

text \<open>
  A balance and a channel as the service puts them on the wire according to the interface
  table: the monetary fields as decimal strings, the other fields as they are.
\<close>

definition wire_balance :: "agent_balance \<Rightarrow> json" where
  "wire_balance b =
     JObj [(''agentId'', ab_agent_id b), (''chain'', ab_chain b), (''token'', ab_token b),
           (''balance'', JStr (py_str (ab_balance b))), (''decimals'', ab_decimals b),
           (''lastUpdated'', ab_last_updated b)]"

definition wire_channel :: "agent_channel \<Rightarrow> json" where
  "wire_channel c =
     JObj [(''id'', ac_id c), (''agentId'', ac_agent_id c), (''peerId'', ac_peer_id c),
           (''chain'', ac_chain c), (''token'', ac_token c),
           (''balance'', JStr (py_str (ac_balance c))),
           (''initialAmount'', JStr (py_str (ac_initial_amount c))),
           (''paymentsCount'', ac_payments_count c), (''status'', ac_status c)]"

text \<open>
  Worlds for trying the statements: a fresh world whose service gives the same answer to
  every request, and a client made in it.
\<close>

definition service_always :: "reply \<Rightarrow> world" where
  "service_always rep = \<lparr>net = (\<lambda>_ _. rep), log = [], next_session = 0, open_sessions = {}\<rparr>"

definition status_only :: "nat \<Rightarrow> response" where
  "status_only n = \<lparr>status_code = n, body = None\<rparr>"

definition client0 :: client where
  "client0 = \<lparr>base_url = API_BASE_URL, session = 0\<rparr>"

section \<open>Properties of \<^verbatim>\<open>str\<close>\<close>

lemma str_nat_numeral:
  "str_nat (numeral k) =
     (if numeral k < (10::nat) then [digit_char (numeral k)]
      else str_nat (numeral k div 10) @ [digit_char (numeral k mod 10)])"
  by (rule str_nat.simps)

lemma str_nat_0: "str_nat 0 = ''0''"
  by (simp add: str_nat.simps digit_char_def)

lemma str_nat_Suc_0: "str_nat (Suc 0) = ''1''"
  by (simp add: str_nat.simps digit_char_def)

lemmas str_eval = py_str_def str_nat_numeral str_nat_0 str_nat_Suc_0 digit_char_def

lemma str_nat_not_Nil: "str_nat n \<noteq> []"
  by (subst str_nat.simps) simp

lemma length_str_nat_le: "n < 10 ^ d \<Longrightarrow> 0 < d \<Longrightarrow> length (str_nat n) \<le> d"
proof (induction n arbitrary: d rule: str_nat.induct)
  case (1 n)
  show ?case
  proof (cases "n < 10")
    case True
    then have "length (str_nat n) = 1"
      by (subst str_nat.simps) simp
    with "1.prems" show ?thesis by simp
  next
    case False
    from "1.prems" obtain d' where d: "d = Suc d'"
      by (cases d) auto
    from False "1.prems" d have "0 < d'"
      by (cases d') auto
    moreover from "1.prems" d have "n div 10 < 10 ^ d'"
      by (simp add: less_mult_imp_div_less mult.commute)
    ultimately have "length (str_nat (n div 10)) \<le> d'"
      using "1.IH" False by simp
    moreover have "length (str_nat n) = Suc (length (str_nat (n div 10)))"
      using False by (subst str_nat.simps) simp
    ultimately show ?thesis
      using d by simp
  qed
qed

lemma digit_char_is_digit: "d < 10 \<Longrightarrow> is_digit (digit_char d)"
proof -
  assume "d < 10"
  then have "d \<in> {0, 1, 2, 3, 4, 5, 6, 7, 8, 9}" by auto
  then show ?thesis by (auto simp: digit_char_def is_digit_def)
qed

lemma digit_val_digit_char: "d < 10 \<Longrightarrow> digit_val (digit_char d) = d"
proof -
  assume "d < 10"
  then have "d \<in> {0, 1, 2, 3, 4, 5, 6, 7, 8, 9}" by auto
  then show ?thesis by (auto simp: digit_char_def digit_val_def)
qed

lemma is_digit_plain:
  "is_digit c \<Longrightarrow> \<not> py_isspace c \<and> c \<noteq> CHR ''-'' \<and> c \<noteq> CHR ''+'' \<and> c \<noteq> CHR ''.''"
  by (auto simp: is_digit_def py_isspace_def)

lemma str_nat_digits: "list_all is_digit (str_nat n)"
proof (induction n rule: str_nat.induct)
  case (1 n)
  then show ?case
    by (subst str_nat.simps) (simp add: digit_char_is_digit)
qed

lemma dec_val_snoc: "dec_val (ds @ [c]) = 10 * dec_val ds + digit_val c"
  by (simp add: dec_val_def)

lemma dec_val_str_nat: "dec_val (str_nat n) = n"
proof (induction n rule: str_nat.induct)
  case (1 n)
  show ?case
  proof (cases "n < 10")
    case True
    then show ?thesis
      by (subst str_nat.simps) (simp add: dec_val_def digit_val_digit_char)
  next
    case False
    with 1 have "dec_val (str_nat (n div 10)) = n div 10" by simp
    with False show ?thesis
      by (subst str_nat.simps) (simp add: dec_val_snoc digit_val_digit_char)
  qed
qed

lemma scan_digits_digits:
  "list_all is_digit ds \<Longrightarrow>
     scan_digits acc ds = Some (foldl (\<lambda>a c. 10 * a + digit_val c) acc ds)"
  by (induction acc ds rule: scan_digits.induct) simp_all

lemma parse_unsigned_digits:
  "list_all is_digit ds \<Longrightarrow> ds \<noteq> [] \<Longrightarrow> parse_unsigned ds = Some (dec_val ds)"
  by (cases ds) (simp_all add: parse_unsigned_def scan_digits_digits dec_val_def)

lemma parse_unsigned_str_nat: "parse_unsigned (str_nat n) = Some n"
  by (simp add: parse_unsigned_digits str_nat_digits str_nat_not_Nil dec_val_str_nat)

lemma strip_id:
  "s \<noteq> [] \<Longrightarrow> \<not> py_isspace (hd s) \<Longrightarrow> \<not> py_isspace (last s) \<Longrightarrow> strip s = s"
proof -
  assume s: "s \<noteq> []" and h: "\<not> py_isspace (hd s)" and l: "\<not> py_isspace (last s)"
  from h have "dropWhile py_isspace s = s"
    by (simp add: dropWhile_eq_self_iff)
  moreover from l have "dropWhile py_isspace (rev s) = rev s"
    by (simp add: dropWhile_eq_self_iff hd_rev)
  ultimately show ?thesis
    by (simp add: strip_def)
qed

lemma replicate_numeral: "replicate (numeral k) x = x # replicate (pred_numeral k) x"
  by (simp add: numeral_eq_Suc)

lemma hd_str_nat: "is_digit (hd (str_nat n))"
  using str_nat_digits [of n] str_nat_not_Nil [of n] by (cases "str_nat n") simp_all

lemma last_str_nat: "is_digit (last (str_nat n))"
  using str_nat_digits [of n] str_nat_not_Nil [of n]
  by (simp add: list_all_iff)

lemma int_of_str_py_str: "int_of_str (py_str n) = Inr n"
proof (cases "n < 0")
  case True
  have "strip (CHR ''-'' # str_nat (nat (- n))) = CHR ''-'' # str_nat (nat (- n))"
    using last_str_nat [of "nat (- n)"] str_nat_not_Nil [of "nat (- n)"]
    by (intro strip_id) (simp_all add: is_digit_plain, simp add: py_isspace_def)
  with True show ?thesis
    by (simp add: int_of_str_def py_str_def parse_unsigned_str_nat)
next
  case False
  obtain c cs where s: "str_nat (nat n) = c # cs"
    using str_nat_not_Nil [of "nat n"] by (cases "str_nat (nat n)") auto
  have c: "is_digit c"
    using hd_str_nat [of "nat n"] s by simp
  have "strip (str_nat (nat n)) = str_nat (nat n)"
    using hd_str_nat [of "nat n"] last_str_nat [of "nat n"] str_nat_not_Nil [of "nat n"]
    by (intro strip_id) (simp_all add: is_digit_plain)
  moreover have "parse_unsigned (c # cs) = Some (nat n)"
    using parse_unsigned_str_nat [of "nat n"] s by simp
  ultimately show ?thesis
    using False s c is_digit_plain [of c]
    by (simp add: int_of_str_def py_str_def)
qed


lemma str_nat_inj: "str_nat m = str_nat n \<Longrightarrow> m = n"
proof -
  assume "str_nat m = str_nat n"
  then have "dec_val (str_nat m) = dec_val (str_nat n)"
    by (rule arg_cong)
  then show ?thesis
    by (simp only: dec_val_str_nat)
qed

lemma zfill_str_nat:
  "length (str_nat n) \<le> d \<Longrightarrow>
     zfill d (str_nat n) = replicate (d - length (str_nat n)) CHR ''0'' @ str_nat n"
  using hd_str_nat [of n]
  by (cases "str_nat n") (auto simp: zfill_def is_digit_plain)

lemma format_balance_shape:
  assumes "0 < d"
  shows "format_balance b d =
           py_str (b div 10 ^ d) @ ''.'' @
           replicate (d - length (py_str (b mod 10 ^ d))) CHR ''0'' @ py_str (b mod 10 ^ d)
         \<and> length (py_str (b mod 10 ^ d)) \<le> d"
proof -
  let ?r = "b mod 10 ^ d"
  have r: "0 \<le> ?r" "?r < 10 ^ d"
    by simp_all
  then have "nat ?r < 10 ^ d"
    by (simp add: nat_less_iff)
  then have len: "length (str_nat (nat ?r)) \<le> d"
    using assms by (rule length_str_nat_le)
  have s: "py_str ?r = str_nat (nat ?r)"
    by (simp add: py_str_def not_less)
  have "zfill d (py_str ?r) = replicate (d - length (py_str ?r)) CHR ''0'' @ py_str ?r"
    unfolding s using len by (rule zfill_str_nat)
  then have "format_balance b d =
      py_str (b div 10 ^ d) @ ''.'' @ replicate (d - length (py_str ?r)) CHR ''0'' @ py_str ?r"
    by (simp add: format_balance_def Let_def)
  moreover have "length (py_str ?r) \<le> d"
    unfolding s by (rule len)
  ultimately show ?thesis
    by (rule conjI)
qed

lemma format_balance_differs:
  assumes "0 < d" and "b < 0" and "b mod 10 ^ d \<noteq> 0"
  shows "format_balance b d \<noteq> CHR ''-'' # format_balance (- b) d"
proof
  let ?D = "10 ^ d :: int"
  let ?q = "(- b) div ?D"
  assume eq: "format_balance b d = CHR ''-'' # format_balance (- b) d"
  have q: "b div ?D = - ?q - 1"
    using assms(3) zdiv_zminus1_eq_if [of ?D "- b"] 
    by (simp add: zdiv_zminus1_eq_if) 
  have q0: "0 \<le> ?q"
    using assms(2) by (simp add: pos_imp_zdiv_nonneg_iff)
  then have w1: "py_str (b div ?D) = CHR ''-'' # str_nat (nat (?q + 1))"
    by (simp add: q py_str_def add.commute)
  from q0 have w2: "py_str ?q = str_nat (nat ?q)"
    by (simp add: py_str_def)
  let ?f = "\<lambda>x. replicate (d - length (py_str (x mod ?D))) CHR ''0'' @ py_str (x mod ?D)"
  have len: "length (?f x) = d" if "length (py_str (x mod ?D)) \<le> d" for x
    using that by simp
  define u where "u = ''.'' @ ?f b"
  define v where "v = ''.'' @ ?f (- b)"
  have "str_nat (nat (?q + 1)) @ u = str_nat (nat ?q) @ v"
    unfolding u_def v_def
    using eq format_balance_shape [OF assms(1), of b] format_balance_shape [OF assms(1), of "- b"]
    by (simp add: w1 w2)
  moreover have "length u = length v"
    unfolding u_def v_def
    using format_balance_shape [OF assms(1), of b] format_balance_shape [OF assms(1), of "- b"]
    by simp
  ultimately have "str_nat (nat (?q + 1)) = str_nat (nat ?q)"
    by (simp add: append_eq_append_conv)
  then have "nat (?q + 1) = nat ?q"
    by (rule str_nat_inj)
  with q0 show False by simp
qed

lemma dec_val_zeros: "dec_val (replicate k CHR ''0'' @ ds) = dec_val ds"
  by (induction k) (simp_all add: dec_val_def digit_val_def)

lemma dec_val_py_str: "0 \<le> n \<Longrightarrow> int (dec_val (py_str n)) = n"
  by (simp add: py_str_def dec_val_str_nat)

lemma display_value:
  assumes "0 \<le> b"
  shows "int (dec_val (py_str (b div 10 ^ d))) * 10 ^ d
           + int (dec_val (replicate (d - length (py_str (b mod 10 ^ d))) CHR ''0'' @
                           py_str (b mod 10 ^ d))) = b"
proof -
  have "0 \<le> b div 10 ^ d"
    using assms by (simp add: pos_imp_zdiv_nonneg_iff)
  then have q: "int (dec_val (py_str (b div 10 ^ d))) = b div 10 ^ d"
    by (rule dec_val_py_str)
  have r: "int (dec_val (py_str (b mod 10 ^ d))) = b mod 10 ^ d"
    by (rule dec_val_py_str) simp
  show ?thesis
    unfolding dec_val_zeros q r by (rule div_mult_mod_eq)
qed

lemma format_balance_0: "format_balance b 0 = py_str b @ ''.0''"
  by (simp add: format_balance_def zfill_def py_str_def str_nat_0)


section \<open>Anatomy of a call\<close>

lemmas op_defs =
  create_wallet_def get_wallet_def get_all_balances_def get_balance_def open_channel_def
  send_payment_def close_channel_def get_agent_channels_def

lemma perform_world:
  "snd (snd (perform c call w)) = w\<lparr>log := log w @ [(session c, request_of c call)]\<rparr>"
  by (cases call) (simp_all add: op_defs returning_def session_request_def Let_def)

lemma perform_client: "fst (snd (perform c call w)) = c"
  by (cases call) (simp_all add: op_defs returning_def session_request_def Let_def)

lemma perform_timeout:
  "reply_to w (request_of c call) = TimesOut \<Longrightarrow> fst (perform c call w) = Inl Timeout"
  by (cases call)
    (simp_all add: op_defs returning_def session_request_def Let_def reply_to_def bind_r_def)

lemma perform_connection:
  "reply_to w (request_of c call) = ConnectionFails \<Longrightarrow>
     fst (perform c call w) = Inl ConnectionError"
  by (cases call)
    (simp_all add: op_defs returning_def session_request_def Let_def reply_to_def bind_r_def)

lemma perform_http_failure:
  "reply_to w (request_of c call) = Responds r \<Longrightarrow> 400 \<le> status_code r \<Longrightarrow>
   status_code r < 600 \<Longrightarrow>
     fst (perform c call w) =
       (case call of
          GetWallet _ \<Rightarrow>
            if status_code r = 404 then Inr (OptionalWallet None) else Inl (HTTPError r)
        | _ \<Rightarrow> Inl (HTTPError r))"
  by (cases call)
    (simp_all add: op_defs returning_def session_request_def Let_def reply_to_def bind_r_def
      raise_for_status_def)


lemma bind_r_neq: "m \<noteq> Inl e \<Longrightarrow> (\<And>v. f v \<noteq> Inl e) \<Longrightarrow> bind_r m f \<noteq> Inl e"
  by (cases m) (simp_all add: bind_r_def)

lemma map_sum_neq: "x \<noteq> Inl e \<Longrightarrow> map_sum (\<lambda>e. e) f x \<noteq> Inl e"
  by (cases x) simp_all

lemma getitem_no_timeout: "getitem j k \<noteq> Inl Timeout"
  by (cases j) (simp_all split: option.splits)

lemma int_of_str_no_timeout: "int_of_str s \<noteq> Inl Timeout"
  by (simp add: int_of_str_def split: list.splits option.splits)

lemma int_of_float_no_timeout: "int_of_float f \<noteq> Inl Timeout"
  by (cases f) simp_all

lemma py_int_no_timeout: "py_int j \<noteq> Inl Timeout"
  by (cases j) (simp_all add: int_of_str_no_timeout int_of_float_no_timeout)

lemma py_iter_no_timeout: "py_iter j \<noteq> Inl Timeout"
  by (cases j) simp_all

lemma raise_for_status_no_timeout: "raise_for_status r \<noteq> Inl Timeout"
  by (simp add: raise_for_status_def)

lemma response_json_no_timeout: "response_json r \<noteq> Inl Timeout"
  by (simp add: response_json_def split: option.splits)

lemma map_r_no_timeout: "(\<And>x. f x \<noteq> Inl Timeout) \<Longrightarrow> map_r f xs \<noteq> Inl Timeout"
  by (induction xs) (simp_all add: bind_r_neq)

lemmas no_timeout =
  getitem_no_timeout py_int_no_timeout py_iter_no_timeout raise_for_status_no_timeout
  response_json_no_timeout

lemma AgentWallet_no_timeout: "AgentWallet j \<noteq> Inl Timeout"
  unfolding AgentWallet_def by (intro bind_r_neq no_timeout) simp

lemma AgentBalance_no_timeout: "AgentBalance j \<noteq> Inl Timeout"
  unfolding AgentBalance_def by (intro bind_r_neq no_timeout) simp

lemma AgentChannel_no_timeout: "AgentChannel j \<noteq> Inl Timeout"
  unfolding AgentChannel_def by (intro bind_r_neq no_timeout) simp

lemma perform_response_no_timeout:
  assumes "reply_to w (request_of c call) = Responds r"
  shows "fst (perform c call w) \<noteq> Inl Timeout"
proof (cases call)
  case (CreateWallet a)
  with assms show ?thesis
    by (simp add: create_wallet_def returning_def session_request_def Let_def reply_to_def)
      (intro map_sum_neq bind_r_neq no_timeout AgentWallet_no_timeout, simp)
next
  case (GetWallet a)
  show ?thesis
  proof (cases "status_code r = 404")
    case True
    with assms GetWallet show ?thesis
      by (simp add: get_wallet_def returning_def session_request_def Let_def reply_to_def
          bind_r_def)
  next
    case False
    with assms GetWallet show ?thesis
      by (simp add: get_wallet_def returning_def session_request_def Let_def reply_to_def)
        (simp add: bind_r_def [of "Inr r"],
          intro map_sum_neq bind_r_neq no_timeout AgentWallet_no_timeout, simp)
  qed
next
  case (GetAllBalances a)
  with assms show ?thesis
    by (simp add: get_all_balances_def returning_def session_request_def Let_def reply_to_def)
      (intro map_sum_neq bind_r_neq no_timeout map_r_no_timeout AgentBalance_no_timeout, simp)
next
  case (GetBalance a ch t)
  with assms show ?thesis
    by (simp add: get_balance_def returning_def session_request_def Let_def reply_to_def)
      (intro map_sum_neq bind_r_neq no_timeout, simp)
next
  case (OpenChannel a p ch t n)
  with assms show ?thesis
    by (simp add: open_channel_def returning_def session_request_def Let_def reply_to_def)
      (intro map_sum_neq bind_r_neq no_timeout, simp)
next
  case (SendPayment a i n)
  with assms show ?thesis
    by (simp add: send_payment_def returning_def session_request_def Let_def reply_to_def)
      (intro map_sum_neq bind_r_neq no_timeout, simp)
next
  case (CloseChannel a i)
  with assms show ?thesis
    by (simp add: close_channel_def returning_def session_request_def Let_def reply_to_def)
      (intro map_sum_neq bind_r_neq no_timeout, simp)
next
  case (GetAgentChannels a)
  with assms show ?thesis
    by (simp add: get_agent_channels_def returning_def session_request_def Let_def reply_to_def)
      (intro map_sum_neq bind_r_neq no_timeout map_r_no_timeout AgentChannel_no_timeout, simp)
qed

lemmas world_defs = reply_to_def service_always_def status_only_def client0_def

lemma py_int_py_str: "py_int (JStr (py_str n)) = Inr n"
  by (simp add: int_of_str_py_str)

lemma AgentBalance_wire: "AgentBalance (wire_balance b) = Inr b"
  by (simp add: AgentBalance_def wire_balance_def bind_r_def int_of_str_py_str)

lemma AgentChannel_wire: "AgentChannel (wire_channel c) = Inr c"
  by (simp add: AgentChannel_def wire_channel_def bind_r_def int_of_str_py_str)

lemma map_r_wire_balance: "map_r AgentBalance (map wire_balance bs) = Inr bs"
  by (induction bs) (simp_all add: bind_r_def AgentBalance_wire)

lemma map_r_wire_channel: "map_r AgentChannel (map wire_channel cs) = Inr cs"
  by (induction cs) (simp_all add: bind_r_def AgentChannel_wire)

lemma create_wallet_frame:
  "snd (create_wallet c a w) =
     (c, w\<lparr>log := log w @ [(session c, request_of c (CreateWallet a))]\<rparr>)"
  by (simp add: create_wallet_def session_request_def Let_def)

lemma batch_loop_frame:
  "\<exists>reqs. snd (batch_loop c ids ws w) = w\<lparr>log := log w @ map (Pair (session c)) reqs\<rparr>
     \<and> length reqs \<le> length ids"
proof (induction ids arbitrary: ws w)
  case Nil
  have "snd (batch_loop c [] ws w) = w\<lparr>log := log w @ map (Pair (session c)) []\<rparr>"
    by simp
  then show ?case by fastforce
next
  case (Cons a ids)
  let ?req = "request_of c (CreateWallet a)"
  let ?w' = "w\<lparr>log := log w @ [(session c, ?req)]\<rparr>"
  obtain res where cw: "create_wallet c a w = (res, c, ?w')"
    using create_wallet_frame [of c a w] by (cases "create_wallet c a w") simp
  have stop: "\<exists>reqs. ?w' = w\<lparr>log := log w @ map (Pair (session c)) reqs\<rparr>
      \<and> length reqs \<le> length (a # ids)"
    by (rule exI [of _ "[?req]"]) simp
  have go: "\<exists>reqs. snd (batch_loop c ids ws' ?w') = w\<lparr>log := log w @ map (Pair (session c)) reqs\<rparr>
      \<and> length reqs \<le> length (a # ids)" for ws'
  proof -
    from Cons.IH [of ws' ?w'] obtain reqs where
      "snd (batch_loop c ids ws' ?w') = ?w'\<lparr>log := log ?w' @ map (Pair (session c)) reqs\<rparr>"
      "length reqs \<le> length ids"
      by blast
    then have "snd (batch_loop c ids ws' ?w') =
        w\<lparr>log := log w @ map (Pair (session c)) (?req # reqs)\<rparr>
      \<and> length (?req # reqs) \<le> length (a # ids)"
      by simp
    then show ?thesis by blast
  qed
  show ?case
  proof (cases res)
    case (Inr wallet)
    with cw go [of "ws @ [wallet]"] show ?thesis by simp
  next
    case (Inl e)
    show ?thesis
    proof (cases e)
      case (HTTPError r)
      with Inl cw go [of ws] stop show ?thesis by (cases "status_code r = 409") simp_all
    qed (use Inl cw stop in simp_all)
  qed
qed

lemma example_5_frame:
  "\<exists>reqs. snd (example_5_batch_operations w) =
     w\<lparr>log := log w @ map (Pair (next_session w)) reqs,
       next_session := Suc (next_session w),
       open_sessions := insert (next_session w) (open_sessions w)\<rparr>"
proof -
  let ?c = "\<lparr>base_url = API_BASE_URL, session = next_session w\<rparr>"
  let ?w1 = "w\<lparr>next_session := Suc (next_session w),
               open_sessions := insert (next_session w) (open_sessions w)\<rparr>"
  obtain reqs where
    "snd (batch_loop ?c [''agent-batch-001'', ''agent-batch-002'', ''agent-batch-003''] [] ?w1) =
       ?w1\<lparr>log := log ?w1 @ map (Pair (session ?c)) reqs\<rparr>"
    using batch_loop_frame by blast
  then have "snd (example_5_batch_operations w) =
     w\<lparr>log := log w @ map (Pair (next_session w)) reqs,
       next_session := Suc (next_session w),
       open_sessions := insert (next_session w) (open_sessions w)\<rparr>"
    by (simp add: example_5_batch_operations_def AgentWalletClient_def Session_def)
  then show ?thesis by blast
qed

section \<open>Formatting a balance\<close>

text \<open>
  Claim C2. For a balance \<open>b \<ge> 0\<close> and \<open>d > 0\<close> decimals, \<open>format_balance b d\<close> is the
  decimal representation of the quotient \<open>b div 10 ^ d\<close>, a dot, and the remainder
  \<open>b mod 10 ^ d\<close> padded with zeros on the left to exactly \<open>d\<close> digits (the remainder
  itself never has more than \<open>d\<close> digits). Read as numbers, the digits before the dot
  times \<open>10 ^ d\<close> plus the digits after it give \<open>b\<close> back, so that the string denotes
  \<open>b / 10 ^ d\<close>. In particular
  \<open>format_balance 1000000000 6 = ''1000.000000''\<close> and
  \<open>format_balance 10000000 6 = ''10.000000''\<close>.
\<close>

theorem format_balance_nonneg:
  assumes "0 \<le> b" and "0 < d"
  shows "format_balance b d =
           py_str (b div 10 ^ d) @ ''.'' @
           replicate (d - length (py_str (b mod 10 ^ d))) CHR ''0'' @ py_str (b mod 10 ^ d)
         \<and> length (py_str (b mod 10 ^ d)) \<le> d
         \<and> length (replicate (d - length (py_str (b mod 10 ^ d))) CHR ''0'' @
                    py_str (b mod 10 ^ d)) = d
         \<and> int (dec_val (py_str (b div 10 ^ d))) * 10 ^ d
             + int (dec_val (replicate (d - length (py_str (b mod 10 ^ d))) CHR ''0'' @
                             py_str (b mod 10 ^ d))) = b
         \<and> format_balance 1000000000 6 = ''1000.000000''
         \<and> format_balance 10000000 6 = ''10.000000''"
proof -
  note shape = format_balance_shape [OF assms(2), of b] and denotes = display_value [OF assms(1), of d]
  have "format_balance 1000000000 6 = ''1000.000000''"
    by (simp add: format_balance_def zfill_def str_eval replicate_numeral)
  moreover have "format_balance 10000000 6 = ''10.000000''"
    by (simp add: format_balance_def zfill_def str_eval replicate_numeral)
  ultimately show ?thesis
    using shape denotes by simp
qed

theorem format_balance_nonneg_witness:
  "(0::int) \<le> 1000042 \<and> (0::nat) < 6 \<and> format_balance 1000042 6 = ''1.000042''"
  using format_balance_nonneg [of 1000042 6]
  by (simp add: str_eval replicate_numeral)

text \<open>
  Claim C9. For a negative balance \<open>b\<close> and \<open>d > 0\<close> decimals, \<open>format_balance b d\<close> is
  built from the floored quotient (which is negative) and the floored remainder (which lies
  between \<open>0\<close> and \<open>10 ^ d\<close>, with \<open>b = q * 10 ^ d + r\<close>), the remainder padded to \<open>d\<close>
  digits. Unless \<open>10 ^ d\<close> divides \<open>b\<close>, this is not the formatted absolute value with a
  minus sign in front; \<open>format_balance (-1) 6\<close> is \<open>''-1.999999''\<close>, not
  \<open>''-0.000001''\<close>.
\<close>

theorem format_balance_negative:
  assumes "b < 0" and "0 < d"
  shows "format_balance b d =
           py_str (b div 10 ^ d) @ ''.'' @
           replicate (d - length (py_str (b mod 10 ^ d))) CHR ''0'' @ py_str (b mod 10 ^ d)
         \<and> length (py_str (b mod 10 ^ d)) \<le> d
         \<and> b div 10 ^ d < 0 \<and> 0 \<le> b mod 10 ^ d \<and> b mod 10 ^ d < 10 ^ d
         \<and> b = (b div 10 ^ d) * 10 ^ d + b mod 10 ^ d
         \<and> (b mod 10 ^ d \<noteq> 0 \<longrightarrow> format_balance b d \<noteq> CHR ''-'' # format_balance (- b) d)
         \<and> format_balance (- 1) 6 = ''-1.999999''
         \<and> format_balance (- 1) 6 \<noteq> ''-0.000001''"
proof -
  note shape = format_balance_shape [OF assms(2), of b]
  have c1: "format_balance b d =
      py_str (b div 10 ^ d) @ ''.'' @
      replicate (d - length (py_str (b mod 10 ^ d))) CHR ''0'' @ py_str (b mod 10 ^ d)"
    using shape by (rule conjunct1)
  have c2: "length (py_str (b mod 10 ^ d)) \<le> d"
    using shape by (rule conjunct2)
  have c3: "b div 10 ^ d < 0"
    using assms(1) by (simp add: div_neg_pos_less0)
  have c4: "0 \<le> b mod 10 ^ d" and c5: "b mod 10 ^ d < 10 ^ d"
    by simp_all
  have c6: "b = (b div 10 ^ d) * 10 ^ d + b mod 10 ^ d"
    by (rule div_mult_mod_eq [symmetric])
  have c7: "b mod 10 ^ d \<noteq> 0 \<longrightarrow> format_balance b d \<noteq> CHR ''-'' # format_balance (- b) d"
    using format_balance_differs [OF assms(2) assms(1)] by blast
  have c8: "format_balance (- 1) 6 = ''-1.999999''"
    by (simp add: format_balance_def zfill_def str_eval replicate_numeral)
  then have c9: "format_balance (- 1) 6 \<noteq> ''-0.000001''"
    by simp
  show ?thesis
    by (intro conjI) (rule c1 c2 c3 c4 c5 c6 c7 c8 c9)+
qed

theorem format_balance_negative_witness:
  "(- 1500000 :: int) < 0 \<and> (0::nat) < 6 \<and> format_balance (- 1500000) 6 = ''-2.500000''
   \<and> format_balance (- 1500000) 6 \<noteq> CHR ''-'' # format_balance 1500000 6"
proof -
  have pre: "(- 1500000 :: int) < 0" "(0::nat) < 6"
    by simp_all
  note neg = format_balance_negative [OF pre]
  have "format_balance (- 1500000) 6 = ''-2.500000''"
    using neg by (simp add: str_eval replicate_numeral)
  moreover have "(- 1500000 :: int) mod 10 ^ 6 \<noteq> 0"
    by simp
  with neg have "format_balance (- 1500000) 6 \<noteq> CHR ''-'' # format_balance (- (- 1500000)) 6"
    by blast
  ultimately show ?thesis
    by simp
qed

text \<open>
  Claim C10 says that with \<open>0\<close> decimals the result ends in the dot, as in \<open>''5.''\<close>. The
  code does otherwise: the remainder is \<open>0\<close>, its string \<open>''0''\<close> has one character, and
  \<^verbatim>\<open>zfill(0)\<close> does not shorten it.
\<close>

theorem format_balance_zero_decimals_counterexample:
  "format_balance 5 0 = ''5.0'' \<and> format_balance 5 0 \<noteq> ''5.''"
  by (simp add: format_balance_def zfill_def str_eval)

text \<open>
  Claim C10, as amended. For a balance \<open>b \<ge> 0\<close>, \<open>format_balance b 0\<close> is the decimal
  representation of \<open>b\<close> followed by a dot and the single digit \<open>0\<close>; for instance
  \<open>format_balance 5 0 = ''5.0''\<close>.
\<close>

theorem format_balance_zero_decimals:
  assumes "0 \<le> b"
  shows "format_balance b 0 = py_str b @ ''.0''"
  by (rule format_balance_0)

theorem format_balance_zero_decimals_witness:
  "(0::int) \<le> 5 \<and> format_balance 5 0 = ''5.0''"
  using format_balance_zero_decimals [of 5]
  by (simp add: str_eval)

section \<open>Amounts on the wire\<close>

text \<open>
  Claim C1. Integer amounts cross the boundary of the client as decimal strings, and nothing
  is lost. \<^verbatim>\<open>open_channel\<close> and \<^verbatim>\<open>send_payment\<close> put \<^verbatim>\<open>str(amount)\<close> into the body
  of the request they send. \<^verbatim>\<open>int\<close> reads the string of every integer \<open>n\<close> back as
  \<open>n\<close>. \<^verbatim>\<open>get_balance\<close> returns \<^verbatim>\<open>int\<close> of the \<open>balance\<close> field of the body, hence \<open>n\<close>
  when the field is the string of \<open>n\<close>; \<^verbatim>\<open>get_all_balances\<close> and
  \<^verbatim>\<open>get_agent_channels\<close> return exactly the balances and channels that the service put
  on the wire with their amounts as decimal strings.
\<close>

theorem amounts_cross_as_decimal_strings:
  "log (snd (snd (open_channel c a p ch t n w))) =
     log w @ [(session c,
       \<lparr>req_method = POST, req_url = base_url c @ ''/channels'',
        req_json = Some (JObj [(''agentId'', JStr a), (''peerId'', JStr p), (''chain'', JStr ch),
                               (''token'', JStr t), (''amount'', JStr (py_str n))]),
        req_timeout = API_TIMEOUT\<rparr>)]
   \<and> log (snd (snd (send_payment c a i n w))) =
     log w @ [(session c,
       \<lparr>req_method = POST, req_url = base_url c @ ''/channels/'' @ i @ ''/payments'',
        req_json = Some (JObj [(''agentId'', JStr a), (''amount'', JStr (py_str n))]),
        req_timeout = API_TIMEOUT\<rparr>)]
   \<and> py_int (JStr (py_str n)) = Inr n
   \<and> (reply_to w (request_of c (GetBalance a ch t)) = Responds r
          \<and> \<not> (400 \<le> status_code r \<and> status_code r < 600) \<and> body r = Some data \<longrightarrow>
        fst (get_balance c a ch t w) = bind_r (getitem data ''balance'') py_int)
   \<and> (reply_to w (request_of c (GetBalance a ch t)) = Responds r
          \<and> \<not> (400 \<le> status_code r \<and> status_code r < 600)
          \<and> body r = Some (JObj [(''balance'', JStr (py_str n))]) \<longrightarrow>
        fst (get_balance c a ch t w) = Inr n)
   \<and> (reply_to w (request_of c (GetAllBalances a)) = Responds r
          \<and> \<not> (400 \<le> status_code r \<and> status_code r < 600)
          \<and> body r = Some (JObj [(''balances'', JArr (map wire_balance bs))]) \<longrightarrow>
        fst (get_all_balances c a w) = Inr bs)
   \<and> (reply_to w (request_of c (GetAgentChannels a)) = Responds r
          \<and> \<not> (400 \<le> status_code r \<and> status_code r < 600)
          \<and> body r = Some (JObj [(''channels'', JArr (map wire_channel cs))]) \<longrightarrow>
        fst (get_agent_channels c a w) = Inr cs)"
proof -
  have sends:
    "log (snd (snd (open_channel c a p ch t n w))) =
       log w @ [(session c,
         \<lparr>req_method = POST, req_url = base_url c @ ''/channels'',
          req_json = Some (JObj [(''agentId'', JStr a), (''peerId'', JStr p),
                                 (''chain'', JStr ch), (''token'', JStr t),
                                 (''amount'', JStr (py_str n))]),
          req_timeout = API_TIMEOUT\<rparr>)]"
    "log (snd (snd (send_payment c a i n w))) =
       log w @ [(session c,
         \<lparr>req_method = POST, req_url = base_url c @ ''/channels/'' @ i @ ''/payments'',
          req_json = Some (JObj [(''agentId'', JStr a), (''amount'', JStr (py_str n))]),
          req_timeout = API_TIMEOUT\<rparr>)]"
    by (simp_all add: open_channel_def send_payment_def session_request_def Let_def)
  have one: "fst (get_balance c a ch t w) = bind_r (getitem d ''balance'') py_int"
    if "reply_to w (request_of c (GetBalance a ch t)) = Responds r"
      "\<not> (400 \<le> status_code r \<and> status_code r < 600)" "body r = Some d" for d
    using that
    by (auto simp: get_balance_def session_request_def Let_def reply_to_def bind_r_def
        raise_for_status_def response_json_def)
  have one': "fst (get_balance c a ch t w) = Inr n"
    if "reply_to w (request_of c (GetBalance a ch t)) = Responds r"
      "\<not> (400 \<le> status_code r \<and> status_code r < 600)"
      "body r = Some (JObj [(''balance'', JStr (py_str n))])"
    using one [OF that] by (simp add: bind_r_def int_of_str_py_str)
  have all: "fst (get_all_balances c a w) = Inr bs"
    if "reply_to w (request_of c (GetAllBalances a)) = Responds r"
      "\<not> (400 \<le> status_code r \<and> status_code r < 600)"
      "body r = Some (JObj [(''balances'', JArr (map wire_balance bs))])"
    using that
    by (auto simp: get_all_balances_def session_request_def Let_def reply_to_def bind_r_def
        raise_for_status_def response_json_def map_r_wire_balance)
  have chans: "fst (get_agent_channels c a w) = Inr cs"
    if "reply_to w (request_of c (GetAgentChannels a)) = Responds r"
      "\<not> (400 \<le> status_code r \<and> status_code r < 600)"
      "body r = Some (JObj [(''channels'', JArr (map wire_channel cs))])"
    using that
    by (auto simp: get_agent_channels_def session_request_def Let_def reply_to_def bind_r_def
        raise_for_status_def response_json_def map_r_wire_channel)
  show ?thesis
    using sends py_int_py_str [of n] one one' all chans by blast
qed

theorem amounts_cross_as_decimal_strings_witness:
  "fst (get_balance client0 ''agent-001'' ''evm'' ''USDC''
          (service_always (Responds
             \<lparr>status_code = 200,
              body = Some (JObj [(''balance'', JStr ''123456789012345678901234567890'')])\<rparr>)))
     = Inr 123456789012345678901234567890"
proof -
  have s: "py_str 123456789012345678901234567890 = ''123456789012345678901234567890''"
    by (simp add: str_eval)
  show ?thesis
    using amounts_cross_as_decimal_strings
      [where c = client0 and a = "''agent-001''" and ch = "''evm''" and t = "''USDC''"
        and n = 123456789012345678901234567890
        and r = "\<lparr>status_code = 200,
              body = Some (JObj [(''balance'', JStr ''123456789012345678901234567890'')])\<rparr>"
        and w = "service_always (Responds
             \<lparr>status_code = 200,
              body = Some (JObj [(''balance'', JStr ''123456789012345678901234567890'')])\<rparr>)",
        THEN conjunct2, THEN conjunct2, THEN conjunct2, THEN conjunct2, THEN conjunct1]
    by (simp add: world_defs s)
qed

text \<open>
  Claim C8. \<^verbatim>\<open>open_channel\<close> does not validate its amount. For every integer amount,
  negative ones included, the call sends its request, with \<^verbatim>\<open>str(amount)\<close> in the body,
  and what it returns or raises is decided by the answer to that request alone.
\<close>

theorem open_channel_no_validation:
  "(let req = \<lparr>req_method = POST, req_url = base_url c @ ''/channels'',
               req_json = Some (JObj [(''agentId'', JStr a), (''peerId'', JStr p),
                                      (''chain'', JStr ch), (''token'', JStr t),
                                      (''amount'', JStr (py_str amount))]),
               req_timeout = API_TIMEOUT\<rparr>
    in snd (snd (open_channel c a p ch t amount w)) = w\<lparr>log := log w @ [(session c, req)]\<rparr>
       \<and> fst (open_channel c a p ch t amount w) =
           (case reply_to w req of
              TimesOut \<Rightarrow> Inl Timeout
            | ConnectionFails \<Rightarrow> Inl ConnectionError
            | Responds r \<Rightarrow>
                bind_r (raise_for_status r) (\<lambda>_.
                bind_r (response_json r) (\<lambda>data. getitem data ''channelId''))))"
  by (simp add: open_channel_def session_request_def Let_def reply_to_def bind_r_def
      split: reply.splits)

theorem open_channel_no_validation_witness:
  "fst (open_channel client0 ''agent-001'' ''agent-002'' ''evm'' ''USDC'' (- 5)
          (service_always (Responds
             \<lparr>status_code = 201, body = Some (JObj [(''channelId'', JStr ''ch-1'')])\<rparr>)))
     = Inr (JStr ''ch-1'')
   \<and> map (\<lambda>x. req_json (snd x))
        (log (snd (snd (open_channel client0 ''agent-001'' ''agent-002'' ''evm'' ''USDC'' (- 5)
          (service_always (Responds
             \<lparr>status_code = 201, body = Some (JObj [(''channelId'', JStr ''ch-1'')])\<rparr>))))))
     = [Some (JObj [(''agentId'', JStr ''agent-001''), (''peerId'', JStr ''agent-002''),
                    (''chain'', JStr ''evm''), (''token'', JStr ''USDC''),
                    (''amount'', JStr ''-5'')])]"
  using
    open_channel_no_validation [of client0 "''agent-001''" "''agent-002''" "''evm''" "''USDC''"
      "- 5" "service_always (Responds
             \<lparr>status_code = 201, body = Some (JObj [(''channelId'', JStr ''ch-1'')])\<rparr>)"]
  by (simp add: world_defs Let_def bind_r_def raise_for_status_def response_json_def str_eval)

section \<open>Failures\<close>

text \<open>
  Claim C3. When the service answers \<^verbatim>\<open>get_wallet\<close> with status 404, the call returns
  \<open>None\<close> and does not raise; with any other status from 400 to 599 it raises the
  \<open>HTTPError\<close> of the response. \<open>None\<close> is returned for status 404 only.
\<close>

theorem get_wallet_not_found:
  assumes "reply_to w (request_of c (GetWallet agent_id)) = Responds r"
  shows "(status_code r = 404 \<longrightarrow> fst (get_wallet c agent_id w) = Inr None)
       \<and> (400 \<le> status_code r \<and> status_code r < 600 \<and> status_code r \<noteq> 404 \<longrightarrow>
            fst (get_wallet c agent_id w) = Inl (HTTPError r))
       \<and> (fst (get_wallet c agent_id w) = Inr None \<longrightarrow> status_code r = 404)"
  using assms
  by (auto simp: get_wallet_def session_request_def Let_def reply_to_def bind_r_def
      raise_for_status_def split: sum.splits)

theorem get_wallet_not_found_witness:
  "fst (get_wallet client0 ''agent-404'' (service_always (Responds (status_only 404)))) = Inr None
   \<and> fst (get_wallet client0 ''agent-404'' (service_always (Responds (status_only 500))))
       = Inl (HTTPError (status_only 500))"
  using
    get_wallet_not_found [of "service_always (Responds (status_only 404))" client0
      "''agent-404''" "status_only 404"]
    get_wallet_not_found [of "service_always (Responds (status_only 500))" client0
      "''agent-404''" "status_only 500"]
  by (simp add: world_defs)

text \<open>
  Claim C4 says that every read operation returns a 404 answer as a value. Three of the four
  raise instead: \<^verbatim>\<open>get_balance\<close>, \<^verbatim>\<open>get_all_balances\<close> and \<^verbatim>\<open>get_agent_channels\<close> call
  \<^verbatim>\<open>raise_for_status\<close> without looking at the status first.
\<close>

theorem read_operations_not_found_counterexample:
  "fst (get_balance client0 ''agent-404'' ''evm'' ''USDC''
          (service_always (Responds (status_only 404)))) = Inl (HTTPError (status_only 404))
   \<and> fst (get_all_balances client0 ''agent-404''
          (service_always (Responds (status_only 404)))) = Inl (HTTPError (status_only 404))
   \<and> fst (get_agent_channels client0 ''agent-404''
          (service_always (Responds (status_only 404)))) = Inl (HTTPError (status_only 404))"
  by (simp add: get_balance_def get_all_balances_def get_agent_channels_def
      session_request_def Let_def bind_r_def raise_for_status_def world_defs)

text \<open>
  Claim C4, as amended. Of the read operations, \<^verbatim>\<open>get_wallet\<close> alone returns a 404 answer
  as a value (\<open>None\<close>); \<^verbatim>\<open>get_all_balances\<close>, \<^verbatim>\<open>get_balance\<close> and
  \<^verbatim>\<open>get_agent_channels\<close> raise the \<open>HTTPError\<close> of the 404 response.
\<close>

theorem not_found_per_read_operation:
  assumes "status_code r = 404"
  shows "(reply_to w (request_of c (GetWallet a)) = Responds r \<longrightarrow>
            fst (get_wallet c a w) = Inr None)
       \<and> (reply_to w (request_of c (GetAllBalances a)) = Responds r \<longrightarrow>
            fst (get_all_balances c a w) = Inl (HTTPError r))
       \<and> (reply_to w (request_of c (GetBalance a ch t)) = Responds r \<longrightarrow>
            fst (get_balance c a ch t w) = Inl (HTTPError r))
       \<and> (reply_to w (request_of c (GetAgentChannels a)) = Responds r \<longrightarrow>
            fst (get_agent_channels c a w) = Inl (HTTPError r))"
  using assms
  by (simp add: op_defs session_request_def Let_def reply_to_def bind_r_def
      raise_for_status_def)

theorem not_found_per_read_operation_witness:
  "fst (get_wallet client0 ''agent-404'' (service_always (Responds (status_only 404)))) = Inr None
   \<and> fst (get_agent_channels client0 ''agent-404''
          (service_always (Responds (status_only 404)))) = Inl (HTTPError (status_only 404))"
  using
    not_found_per_read_operation [of "status_only 404"
      "service_always (Responds (status_only 404))" client0 "''agent-404''"]
  by (simp add: world_defs)

text \<open>
  Claim C5. Every operation of the client hands exactly one request to its session, whatever
  the answer (there is no retry), and leaves the client and all of the world but the log
  as they were. Every failure reaches the caller: a timeout and a connection failure as the
  exception of that name, a status from 400 to 599 as the \<open>HTTPError\<close> of the response,
  but for the 404 of \<^verbatim>\<open>get_wallet\<close>, which reaches the caller as \<open>None\<close>.
\<close>

theorem one_request_per_call:
  "snd (snd (perform c call w)) = w\<lparr>log := log w @ [(session c, request_of c call)]\<rparr>
   \<and> length (log (snd (snd (perform c call w)))) = Suc (length (log w))
   \<and> fst (snd (perform c call w)) = c
   \<and> (reply_to w (request_of c call) = TimesOut \<longrightarrow> fst (perform c call w) = Inl Timeout)
   \<and> (reply_to w (request_of c call) = ConnectionFails \<longrightarrow>
        fst (perform c call w) = Inl ConnectionError)
   \<and> (\<forall>r. reply_to w (request_of c call) = Responds r \<and> 400 \<le> status_code r
            \<and> status_code r < 600 \<longrightarrow>
          fst (perform c call w) =
            (case call of
               GetWallet _ \<Rightarrow>
                 if status_code r = 404 then Inr (OptionalWallet None) else Inl (HTTPError r)
             | _ \<Rightarrow> Inl (HTTPError r)))"
  using perform_timeout [of w c call] perform_connection [of w c call]
    perform_http_failure [of w c call]
  by (simp add: perform_world perform_client)

theorem one_request_per_call_witness:
  "log (snd (snd (perform client0 (CloseChannel ''agent-001'' ''ch-1'') (service_always TimesOut))))
     = [(0, \<lparr>req_method = DELETE,
             req_url = ''http://localhost:3000/api/v1/channels/ch-1'',
             req_json = Some (JObj [(''agentId'', JStr ''agent-001'')]),
             req_timeout = 30\<rparr>)]
   \<and> fst (perform client0 (CloseChannel ''agent-001'' ''ch-1'') (service_always TimesOut))
       = Inl Timeout
   \<and> fst (perform client0 (CloseChannel ''agent-001'' ''ch-1'')
            (service_always (Responds (status_only 503)))) = Inl (HTTPError (status_only 503))"
  using
    one_request_per_call [of client0 "CloseChannel ''agent-001'' ''ch-1''" "service_always TimesOut"]
    one_request_per_call [of client0 "CloseChannel ''agent-001'' ''ch-1''"
      "service_always (Responds (status_only 503))"]
  by (simp add: world_defs API_BASE_URL_def API_TIMEOUT_def)

text \<open>
  Claim C6. The request of every operation carries the same timeout, \<open>API_TIMEOUT\<close>, which
  is 30 seconds. When it runs out the operation raises \<open>Timeout\<close>; whatever the service
  answers, a failure status included, the operation does not raise \<open>Timeout\<close>, and a
  failure status other than 404 raises \<open>HTTPError\<close>.
\<close>

theorem uniform_timeout:
  "log (snd (snd (perform c call w))) = log w @ [(session c, request_of c call)]
   \<and> req_timeout (request_of c call) = API_TIMEOUT
   \<and> API_TIMEOUT = 30
   \<and> (reply_to w (request_of c call) = TimesOut \<longrightarrow> fst (perform c call w) = Inl Timeout)
   \<and> (\<forall>r. reply_to w (request_of c call) = Responds r \<longrightarrow>
          fst (perform c call w) \<noteq> Inl Timeout)
   \<and> (\<forall>r. reply_to w (request_of c call) = Responds r \<and> 400 \<le> status_code r
            \<and> status_code r < 600 \<and> status_code r \<noteq> 404 \<longrightarrow>
          fst (perform c call w) = Inl (HTTPError r))"
proof -
  have "req_timeout (request_of c call) = API_TIMEOUT"
    by (cases call) simp_all
  moreover have "fst (perform c call w) = Inl (HTTPError r)"
    if "reply_to w (request_of c call) = Responds r" "400 \<le> status_code r"
      "status_code r < 600" "status_code r \<noteq> 404" for r
    using perform_http_failure [OF that(1-3)] that(4) by (cases call) simp_all
  ultimately show ?thesis
    using perform_timeout [of w c call] perform_response_no_timeout [of w c call]
    by (simp add: perform_world API_TIMEOUT_def)
qed

theorem uniform_timeout_witness:
  "fst (perform client0 (GetBalance ''agent-001'' ''evm'' ''USDC'') (service_always TimesOut))
     = Inl Timeout
   \<and> fst (perform client0 (GetBalance ''agent-001'' ''evm'' ''USDC'')
            (service_always (Responds (status_only 500)))) = Inl (HTTPError (status_only 500))
   \<and> map (\<lambda>x. req_timeout (snd x))
        (log (snd (snd (perform client0 (GetBalance ''agent-001'' ''evm'' ''USDC'')
                          (service_always TimesOut))))) = [30]"
  using
    uniform_timeout [of client0 "GetBalance ''agent-001'' ''evm'' ''USDC''"
      "service_always TimesOut"]
    uniform_timeout [of client0 "GetBalance ''agent-001'' ''evm'' ''USDC''"
      "service_always (Responds (status_only 500))"]
  by (simp add: world_defs)

section \<open>The session\<close>

text \<open>
  Claim C7 says that the session is closed when the client is no longer needed, on every
  exit path. The client has no method that closes its session and no caller does it:
  \<^verbatim>\<open>example_5_batch_operations\<close> leaves the session it created open, both when it returns
  (here every wallet exists already, status 409) and when it raises.
\<close>

theorem session_release_counterexample:
  "fst (example_5_batch_operations (service_always (Responds (status_only 409)))) = Inr []
   \<and> open_sessions (snd (example_5_batch_operations
        (service_always (Responds (status_only 409))))) = {0}
   \<and> fst (example_5_batch_operations (service_always ConnectionFails)) = Inl ConnectionError
   \<and> open_sessions (snd (example_5_batch_operations (service_always ConnectionFails))) = {0}"
  by (simp add: example_5_batch_operations_def AgentWalletClient_def Session_def
      create_wallet_def session_request_def Let_def bind_r_def raise_for_status_def
      service_always_def status_only_def)

text \<open>
  Claim C7, as amended. The constructor creates one session, which the client keeps: every
  operation sends its request through this session, creates no other and closes none. The
  session is not released by the client: a caller such as \<^verbatim>\<open>example_5_batch_operations\<close>
  ends, on every path, with the session it created still open and with all its requests
  sent through it.
\<close>

theorem session_acquired_once_never_closed:
  "(case AgentWalletClient url w of
      (new, w1) \<Rightarrow>
        session new = next_session w \<and> base_url new = url
        \<and> w1 = w\<lparr>next_session := Suc (next_session w),
                  open_sessions := insert (next_session w) (open_sessions w)\<rparr>)
   \<and> (case perform c call w of
        (res, c', w') \<Rightarrow>
          c' = c \<and> w' = w\<lparr>log := log w @ [(session c, request_of c call)]\<rparr>
          \<and> open_sessions w' = open_sessions w \<and> next_session w' = next_session w)
   \<and> (\<exists>reqs. snd (example_5_batch_operations w) =
         w\<lparr>log := log w @ map (Pair (next_session w)) reqs,
           next_session := Suc (next_session w),
           open_sessions := insert (next_session w) (open_sessions w)\<rparr>)"
proof -
  have "case perform c call w of
        (res, c', w') \<Rightarrow>
          c' = c \<and> w' = w\<lparr>log := log w @ [(session c, request_of c call)]\<rparr>
          \<and> open_sessions w' = open_sessions w \<and> next_session w' = next_session w"
    using perform_world [of c call w] perform_client [of c call w]
    by (cases "perform c call w") simp
  then show ?thesis
    using example_5_frame [of w]
    by (simp add: AgentWalletClient_def Session_def)
qed

end
